theory Spec2Isabelle
  imports Main "HOL-Library.Word"
begin

unbundle bit_operations_syntax

section \<open>The shared ring of \<^verbatim>\<open>src/lib/ring_stubs.c\<close>\<close>

subsection \<open>Data\<close>

text \<open>
  \<^verbatim>\<open>RING_IDX\<close> is the unsigned 32-bit index type of the Xen ring headers. An OCaml
  \<^verbatim>\<open>value\<close> and an \<^verbatim>\<open>unsigned long\<close> are machine words of an LP64 platform.
\<close>

type_synonym RING_IDX = "32 word"
type_synonym caml_value = "64 word"
type_synonym pointer = "64 word"

definition PAGE_SIZE :: nat where
  "PAGE_SIZE = 4096"

text \<open>
  \<^verbatim>\<open>struct sring { RING_IDX req_prod, req_event; RING_IDX rsp_prod, rsp_event;
  uint8_t pad[64]; }\<close>
\<close>

record sring =
  req_prod :: RING_IDX
  req_event :: RING_IDX
  rsp_prod :: RING_IDX
  rsp_event :: RING_IDX
  pad :: "8 word list"

datatype field = ReqProd | ReqEvent | RspProd | RspEvent

fun get_field :: "field \<Rightarrow> sring \<Rightarrow> RING_IDX" where
  "get_field ReqProd r = req_prod r"
| "get_field ReqEvent r = req_event r"
| "get_field RspProd r = rsp_prod r"
| "get_field RspEvent r = rsp_event r"

fun set_field :: "field \<Rightarrow> RING_IDX \<Rightarrow> sring \<Rightarrow> sring" where
  "set_field ReqProd x r = r\<lparr>req_prod := x\<rparr>"
| "set_field ReqEvent x r = r\<lparr>req_event := x\<rparr>"
| "set_field RspProd x r = r\<lparr>rsp_prod := x\<rparr>"
| "set_field RspEvent x r = r\<lparr>rsp_event := x\<rparr>"

subsection \<open>Effects\<close>

text \<open>
  A stub touches the shared page by loads and stores of index fields and by
  \<^verbatim>\<open>__sync_synchronize()\<close>, to which both \<^verbatim>\<open>xen_mb()\<close> and \<^verbatim>\<open>xen_wmb()\<close> expand.
  The state is the structure that \<^verbatim>\<open>SRING_VAL(v_sring)\<close> points at together with the
  sequence, in program order, of the memory events issued so far.
\<close>

datatype event = Fence | Load field | Store field RING_IDX

record machine =
  shared :: sring
  trace :: "event list"

datatype fault = Assertion_failed

type_synonym 'a outcome = "fault + ('a \<times> machine)"

definition xen_mb :: "machine \<Rightarrow> machine" where
  "xen_mb st = st\<lparr>trace := trace st @ [Fence]\<rparr>"

definition xen_wmb :: "machine \<Rightarrow> machine" where
  "xen_wmb st = st\<lparr>trace := trace st @ [Fence]\<rparr>"

definition load :: "field \<Rightarrow> machine \<Rightarrow> RING_IDX \<times> machine" where
  "load f st = (get_field f (shared st), st\<lparr>trace := trace st @ [Load f]\<rparr>)"

definition store :: "field \<Rightarrow> RING_IDX \<Rightarrow> machine \<Rightarrow> machine" where
  "store f x st = st\<lparr>shared := set_field f x (shared st), trace := trace st @ [Store f x]\<rparr>"

subsection \<open>OCaml integer tagging\<close>

text \<open>
  The macros of the OCaml runtime header \<^verbatim>\<open>caml/mlvalues.h\<close>, which the stubs include:
  \<^verbatim>\<open>Val_int(x)\<close> is \<^verbatim>\<open>((intnat)((uintnat)(x) << 1) + 1)\<close>, applied here to an unsigned
  32-bit field, which is zero-extended first; \<^verbatim>\<open>Int_val(v)\<close> is \<^verbatim>\<open>(int)((v) >> 1)\<close> with an
  arithmetic shift, and the assignment to a \<^verbatim>\<open>RING_IDX\<close> keeps the low 32 bits;
  \<^verbatim>\<open>Val_unit\<close> is \<^verbatim>\<open>Val_int(0)\<close>.
\<close>

definition Val_int :: "RING_IDX \<Rightarrow> caml_value" where
  "Val_int x = push_bit 1 (ucast x) + 1"

definition Int_val :: "caml_value \<Rightarrow> RING_IDX" where
  "Int_val v = ucast (signed_drop_bit 1 v)"

definition Val_unit :: caml_value where
  "Val_unit = Val_int 0"

subsection \<open>The stubs\<close>

text \<open>
  Each stub takes the pointer \<^verbatim>\<open>SRING_VAL(v_sring)\<close>, its integer argument if it has
  one, and the state; it yields the returned OCaml value and the new state, or the
  fault of a failed \<^verbatim>\<open>assert\<close> (assertions are compiled in, and a failed one aborts
  before anything else is done). The memory behind the pointer is taken to be mapped,
  as the stubs take it.
\<close>

definition caml_sring_rsp_prod :: "pointer \<Rightarrow> machine \<Rightarrow> caml_value outcome" where
  "caml_sring_rsp_prod v_sring st =
     (let (x, st1) = load RspProd st in Inr (Val_int x, st1))"

definition caml_sring_req_prod :: "pointer \<Rightarrow> machine \<Rightarrow> caml_value outcome" where
  "caml_sring_req_prod v_sring st =
     (let (x, st1) = load ReqProd st in Inr (Val_int x, st1))"

definition caml_sring_req_event :: "pointer \<Rightarrow> machine \<Rightarrow> caml_value outcome" where
  "caml_sring_req_event v_sring st =
     (let st1 = xen_mb st;
          (x, st2) = load ReqEvent st1
      in Inr (Val_int x, st2))"

definition caml_sring_rsp_event :: "pointer \<Rightarrow> machine \<Rightarrow> caml_value outcome" where
  "caml_sring_rsp_event v_sring st =
     (let st1 = xen_mb st;
          (x, st2) = load RspEvent st1
      in Inr (Val_int x, st2))"

definition caml_sring_push_requests ::
  "pointer \<Rightarrow> caml_value \<Rightarrow> machine \<Rightarrow> caml_value outcome" where
  "caml_sring_push_requests v_sring v_req_prod_pvt st =
     (if unat v_sring mod PAGE_SIZE = 0 then
        (let st1 = xen_wmb st;
             st2 = store ReqProd (Int_val v_req_prod_pvt) st1
         in Inr (Val_unit, st2))
      else Inl Assertion_failed)"

definition caml_sring_push_responses ::
  "pointer \<Rightarrow> caml_value \<Rightarrow> machine \<Rightarrow> caml_value outcome" where
  "caml_sring_push_responses v_sring v_rsp_prod_pvt st =
     (let st1 = xen_wmb st;
          st2 = store RspProd (Int_val v_rsp_prod_pvt) st1
      in Inr (Val_unit, st2))"

definition caml_sring_set_rsp_event ::
  "pointer \<Rightarrow> caml_value \<Rightarrow> machine \<Rightarrow> caml_value outcome" where
  "caml_sring_set_rsp_event v_sring v_rsp_cons st =
     (let st1 = store RspEvent (Int_val v_rsp_cons) st;
          st2 = xen_mb st1
      in Inr (Val_unit, st2))"

definition caml_sring_set_req_event ::
  "pointer \<Rightarrow> caml_value \<Rightarrow> machine \<Rightarrow> caml_value outcome" where
  "caml_sring_set_req_event v_sring v_req_cons st =
     (let st1 = store ReqEvent (Int_val v_req_cons) st;
          st2 = xen_mb st1
      in Inr (Val_unit, st2))"

subsection \<open>Reading a trace\<close>

text \<open>
  The events issued between two states, whether one event was issued before another,
  and the fields that were stored to.
\<close>

definition emitted :: "machine \<Rightarrow> machine \<Rightarrow> event list" where
  "emitted st st' = drop (length (trace st)) (trace st')"

fun issued_before :: "event \<Rightarrow> event \<Rightarrow> event list \<Rightarrow> bool" where
  "issued_before a b [] = False"
| "issued_before a b (e # es) = ((e = a \<and> b \<in> set es) \<or> issued_before a b es)"

fun stored_fields :: "event list \<Rightarrow> field list" where
  "stored_fields [] = []"
| "stored_fields (Store f x # es) = f # stored_fields es"
| "stored_fields (e # es) = stored_fields es"

subsection \<open>Layout of the control block\<close>










subsection \<open>Index arithmetic\<close>

text \<open>
  Modelled from the spec: \<^verbatim>\<open>available(produced, consumed)\<close> is not among the C stubs,
  which only read and write the raw indices; the spec gives it as
  \<^verbatim>\<open>produced - consumed\<close> in wrapping unsigned 32-bit arithmetic.
\<close>

definition available :: "RING_IDX \<Rightarrow> RING_IDX \<Rightarrow> RING_IDX" where
  "available produced consumed = produced - consumed"

subsection \<open>Sample states\<close>

text \<open>
  A ring whose request producer index stands at 100 and whose response producer index
  stands at 5, before any stub has run.
\<close>

definition ring0 :: machine where
  "ring0 = \<lparr>shared = \<lparr>req_prod = 100, req_event = 1, rsp_prod = 5, rsp_event = 2,
                      pad = replicate 64 0\<rparr>,
           trace = []\<rparr>"

section \<open>Properties\<close>

lemma bit_succ_double_word:
  assumes "Suc n < 64"
  shows "bit (a * 2 + 1 :: 64 word) (Suc n) = bit a n"
proof -
  have "bit (1 + 2 * a) (Suc n) = bit (2 * a) (Suc n)"
    by (simp add: even_bit_succ_iff)
  also have "\<dots> = bit a n"
    using assms by (simp add: bit_double_Suc_iff)
  finally show ?thesis
    by (simp add: ac_simps)
qed

lemma Int_val_Val_int: "Int_val (Val_int x) = x"
proof (rule bit_word_eqI)
  fix n :: nat
  assume "n < LENGTH(32)"
  then show "bit (Int_val (Val_int x)) n = bit x n"
    by (simp add: Int_val_def Val_int_def bit_simps bit_succ_double_word)
qed

lemma push_requests_Inr:
  "caml_sring_push_requests p v st = Inr (r, st') \<longleftrightarrow>
     unat p mod PAGE_SIZE = 0 \<and> r = Val_unit \<and>
     st' = st\<lparr>shared := (shared st)\<lparr>req_prod := Int_val v\<rparr>,
              trace := trace st @ [Fence, Store ReqProd (Int_val v)]\<rparr>"
  by (auto simp add: caml_sring_push_requests_def xen_wmb_def store_def)

lemma push_requests_Inl:
  "isl (caml_sring_push_requests p v st) \<longleftrightarrow> unat p mod PAGE_SIZE \<noteq> 0"
  by (simp add: caml_sring_push_requests_def)

lemma push_responses_Inr:
  "caml_sring_push_responses p v st =
     Inr (Val_unit, st\<lparr>shared := (shared st)\<lparr>rsp_prod := Int_val v\<rparr>,
                       trace := trace st @ [Fence, Store RspProd (Int_val v)]\<rparr>)"
  by (simp add: caml_sring_push_responses_def xen_wmb_def store_def)

lemma set_rsp_event_Inr:
  "caml_sring_set_rsp_event p v st =
     Inr (Val_unit, st\<lparr>shared := (shared st)\<lparr>rsp_event := Int_val v\<rparr>,
                       trace := trace st @ [Store RspEvent (Int_val v), Fence]\<rparr>)"
  by (simp add: caml_sring_set_rsp_event_def xen_mb_def store_def)

lemma set_req_event_Inr:
  "caml_sring_set_req_event p v st =
     Inr (Val_unit, st\<lparr>shared := (shared st)\<lparr>req_event := Int_val v\<rparr>,
                       trace := trace st @ [Store ReqEvent (Int_val v), Fence]\<rparr>)"
  by (simp add: caml_sring_set_req_event_def xen_mb_def store_def)

lemma rsp_prod_Inr:
  "caml_sring_rsp_prod p st =
     Inr (Val_int (rsp_prod (shared st)), st\<lparr>trace := trace st @ [Load RspProd]\<rparr>)"
  by (simp add: caml_sring_rsp_prod_def load_def)

lemma req_prod_Inr:
  "caml_sring_req_prod p st =
     Inr (Val_int (req_prod (shared st)), st\<lparr>trace := trace st @ [Load ReqProd]\<rparr>)"
  by (simp add: caml_sring_req_prod_def load_def)

lemma req_event_Inr:
  "caml_sring_req_event p st =
     Inr (Val_int (req_event (shared st)),
          st\<lparr>trace := trace st @ [Fence, Load ReqEvent]\<rparr>)"
  by (simp add: caml_sring_req_event_def load_def xen_mb_def)

lemma rsp_event_Inr:
  "caml_sring_rsp_event p st =
     Inr (Val_int (rsp_event (shared st)),
          st\<lparr>trace := trace st @ [Fence, Load RspEvent]\<rparr>)"
  by (simp add: caml_sring_rsp_event_def load_def xen_mb_def)

lemma emitted_append:
  "emitted st (st\<lparr>shared := r, trace := trace st @ es\<rparr>) = es"
  "emitted st (st\<lparr>trace := trace st @ es\<rparr>) = es"
  by (simp_all add: emitted_def)

lemma Int_val_15: "Int_val 15 = 7"
  by (simp add: Int_val_def)

subsection \<open>Barrier discipline\<close>

text \<open>
  Claim C1. Every call that publishes a produced index issues the fence before the
  store into the shared field. \<^verbatim>\<open>caml_sring_push_requests\<close> publishes when it returns,
  that is when its assertion holds; \<^verbatim>\<open>caml_sring_push_responses\<close> always returns. In
  both, the events of the call are the fence followed by the store of the new value, in
  program order. The fence is \<^verbatim>\<open>__sync_synchronize()\<close>, a full barrier, which orders the
  earlier slot writes before the index store; what a peer on another processor then
  observes is the hardware's part and lies outside this model.
\<close>

theorem push_fence_before_store:
  "(caml_sring_push_requests p v st = Inr (r, st') \<longrightarrow>
      trace st' = trace st @ [Fence, Store ReqProd (Int_val v)] \<and>
      issued_before Fence (Store ReqProd (Int_val v)) (emitted st st') \<and>
      req_prod (shared st') = Int_val v) \<and>
   (\<exists>st''. caml_sring_push_responses p v st = Inr (Val_unit, st'') \<and>
      trace st'' = trace st @ [Fence, Store RspProd (Int_val v)] \<and>
      issued_before Fence (Store RspProd (Int_val v)) (emitted st st'') \<and>
      rsp_prod (shared st'') = Int_val v)"
  by (simp add: push_requests_Inr push_responses_Inr emitted_append)

theorem push_fence_before_store_witness:
  "caml_sring_push_requests 4096 15 ring0 =
     Inr (Val_unit, ring0\<lparr>shared := (shared ring0)\<lparr>req_prod := 7\<rparr>,
                          trace := [Fence, Store ReqProd 7]\<rparr>) \<and>
   issued_before Fence (Store ReqProd 7)
     (emitted ring0 (ring0\<lparr>shared := (shared ring0)\<lparr>req_prod := 7\<rparr>,
                          trace := [Fence, Store ReqProd 7]\<rparr>))"
proof -
  have call: "caml_sring_push_requests 4096 15 ring0 =
     Inr (Val_unit, ring0\<lparr>shared := (shared ring0)\<lparr>req_prod := 7\<rparr>,
                          trace := [Fence, Store ReqProd 7]\<rparr>)"
    by (simp add: push_requests_Inr PAGE_SIZE_def Int_val_15 ring0_def)
  with push_fence_before_store [of 4096 15 ring0 Val_unit
      "ring0\<lparr>shared := (shared ring0)\<lparr>req_prod := 7\<rparr>, trace := [Fence, Store ReqProd 7]\<rparr>"]
  show ?thesis
    by (simp add: Int_val_15)
qed

text \<open>
  Claim C2, as the code has it. The claim asks for a fence right after the load of the
  peer's produced index. \<^verbatim>\<open>caml_sring_rsp_prod\<close> and \<^verbatim>\<open>caml_sring_req_prod\<close> only load
  the field and return it: the call issues exactly one event, the load, and no fence.
  Ordering the load before later slot reads is left to the caller.
\<close>

theorem prod_getters_only_load:
  "(\<exists>st'. caml_sring_rsp_prod p st = Inr (Val_int (rsp_prod (shared st)), st') \<and>
      trace st' = trace st @ [Load RspProd] \<and>
      Fence \<notin> set (emitted st st')) \<and>
   (\<exists>st'. caml_sring_req_prod p st = Inr (Val_int (req_prod (shared st)), st') \<and>
      trace st' = trace st @ [Load ReqProd] \<and>
      Fence \<notin> set (emitted st st'))"
  by (simp add: rsp_prod_Inr req_prod_Inr emitted_append)

text \<open>
  On \<open>ring0\<close> both getters return with the load as their only event, so no fence is
  issued after it.
\<close>

theorem prod_getters_fence_counterexample:
  "caml_sring_rsp_prod 4096 ring0 = Inr (Val_int 5, ring0\<lparr>trace := [Load RspProd]\<rparr>) \<and>
   \<not> issued_before (Load RspProd) Fence (emitted ring0 (ring0\<lparr>trace := [Load RspProd]\<rparr>)) \<and>
   caml_sring_req_prod 4096 ring0 = Inr (Val_int 100, ring0\<lparr>trace := [Load ReqProd]\<rparr>) \<and>
   \<not> issued_before (Load ReqProd) Fence (emitted ring0 (ring0\<lparr>trace := [Load ReqProd]\<rparr>))"
  by (simp add: rsp_prod_Inr req_prod_Inr emitted_def ring0_def)

text \<open>
  Claim C3, as the code has it. The claim asks for a fence after the load of the peer's
  event threshold. \<^verbatim>\<open>caml_sring_req_event\<close> and \<^verbatim>\<open>caml_sring_rsp_event\<close> call
  \<^verbatim>\<open>xen_mb()\<close> first and load the field afterwards: the fence is issued before the
  load, so that the load follows the caller's earlier publish, and nothing is issued
  after the load.
\<close>

theorem event_getters_fence_before_load:
  "(\<exists>st'. caml_sring_req_event p st = Inr (Val_int (req_event (shared st)), st') \<and>
      trace st' = trace st @ [Fence, Load ReqEvent] \<and>
      issued_before Fence (Load ReqEvent) (emitted st st') \<and>
      \<not> issued_before (Load ReqEvent) Fence (emitted st st')) \<and>
   (\<exists>st'. caml_sring_rsp_event p st = Inr (Val_int (rsp_event (shared st)), st') \<and>
      trace st' = trace st @ [Fence, Load RspEvent] \<and>
      issued_before Fence (Load RspEvent) (emitted st st') \<and>
      \<not> issued_before (Load RspEvent) Fence (emitted st st'))"
  by (simp add: req_event_Inr rsp_event_Inr emitted_append)

text \<open>On \<open>ring0\<close> the load is the last event of either call.\<close>

theorem event_getters_fence_counterexample:
  "caml_sring_req_event 4096 ring0 =
     Inr (Val_int 1, ring0\<lparr>trace := [Fence, Load ReqEvent]\<rparr>) \<and>
   \<not> issued_before (Load ReqEvent) Fence
       (emitted ring0 (ring0\<lparr>trace := [Fence, Load ReqEvent]\<rparr>)) \<and>
   caml_sring_rsp_event 4096 ring0 =
     Inr (Val_int 2, ring0\<lparr>trace := [Fence, Load RspEvent]\<rparr>) \<and>
   \<not> issued_before (Load RspEvent) Fence
       (emitted ring0 (ring0\<lparr>trace := [Fence, Load RspEvent]\<rparr>))"
  by (simp add: req_event_Inr rsp_event_Inr emitted_def ring0_def)

text \<open>
  Claim C5. Every call that publishes an event threshold stores the new value into the
  shared event field and then issues the fence, in that order.
\<close>

theorem set_event_store_before_fence:
  "(\<exists>st'. caml_sring_set_rsp_event p v st = Inr (Val_unit, st') \<and>
      trace st' = trace st @ [Store RspEvent (Int_val v), Fence] \<and>
      issued_before (Store RspEvent (Int_val v)) Fence (emitted st st') \<and>
      \<not> issued_before Fence (Store RspEvent (Int_val v)) (emitted st st') \<and>
      rsp_event (shared st') = Int_val v) \<and>
   (\<exists>st'. caml_sring_set_req_event p v st = Inr (Val_unit, st') \<and>
      trace st' = trace st @ [Store ReqEvent (Int_val v), Fence] \<and>
      issued_before (Store ReqEvent (Int_val v)) Fence (emitted st st') \<and>
      \<not> issued_before Fence (Store ReqEvent (Int_val v)) (emitted st st') \<and>
      req_event (shared st') = Int_val v)"
  by (simp add: set_rsp_event_Inr set_req_event_Inr emitted_append)


subsection \<open>Faults\<close>

text \<open>
  Claim C4, as the code has it. The claim asks that indices implying more outstanding
  entries than the capacity surface a fault. The stubs hold no consumed index and no
  capacity, and none of them compares indices: whatever the caller's consumed index and
  capacity are, and also when the produced index is more than the capacity ahead, the
  getter returns normally, and the value it returns decodes to the raw field, neither
  clamped nor altered. Detecting an overrun is left to the callers.
\<close>

theorem getters_return_raw_index:
  "(unat (capacity :: RING_IDX) < unat (req_prod (shared st) - req_cons) \<longrightarrow>
      \<not> isl (caml_sring_req_prod p st) \<and>
      (\<exists>st'. caml_sring_req_prod p st = Inr (Val_int (req_prod (shared st)), st')) \<and>
      Int_val (Val_int (req_prod (shared st))) = req_prod (shared st)) \<and>
   (unat capacity < unat (rsp_prod (shared st) - rsp_cons) \<longrightarrow>
      \<not> isl (caml_sring_rsp_prod p st) \<and>
      (\<exists>st'. caml_sring_rsp_prod p st = Inr (Val_int (rsp_prod (shared st)), st')) \<and>
      Int_val (Val_int (rsp_prod (shared st))) = rsp_prod (shared st))"
  by (simp add: req_prod_Inr rsp_prod_Inr Int_val_Val_int)

theorem getters_return_raw_index_witness:
  "unat (32 :: RING_IDX) < unat (req_prod (shared ring0) - 0) \<and>
   unat (32 :: RING_IDX) < unat (rsp_prod (shared ring0) - 10) \<and>
   \<not> isl (caml_sring_req_prod 4096 ring0) \<and>
   \<not> isl (caml_sring_rsp_prod 4096 ring0) \<and>
   Int_val (Val_int (req_prod (shared ring0))) = 100 \<and>
   Int_val (Val_int (rsp_prod (shared ring0))) = 5"
proof -
  have over: "unat (32 :: RING_IDX) < unat (req_prod (shared ring0) - 0)"
    "unat (32 :: RING_IDX) < unat (rsp_prod (shared ring0) - 10)"
    by (simp_all add: ring0_def)
  have fields: "req_prod (shared ring0) = 100" "rsp_prod (shared ring0) = 5"
    by (simp_all add: ring0_def)
  from over getters_return_raw_index
    [where capacity = 32 and st = ring0 and req_cons = 0 and rsp_cons = 10 and p = 4096]
  show ?thesis
    by (simp add: fields)
qed

text \<open>
  With no entry consumed and a capacity of 32, the request producer index 100 of
  \<open>ring0\<close> is 100 entries ahead, and \<^verbatim>\<open>caml_sring_req_prod\<close> returns it as the OCaml
  integer 100 (the tagged word 201), not a fault.
\<close>

theorem overrun_not_reported_counterexample:
  "unat (32 :: RING_IDX) < unat (req_prod (shared ring0) - 0) \<and>
   caml_sring_req_prod 4096 ring0 = Inr (201, ring0\<lparr>trace := [Load ReqProd]\<rparr>) \<and>
   \<not> isl (caml_sring_req_prod 4096 ring0)"
  by (simp add: req_prod_Inr ring0_def Val_int_def)

text \<open>
  Claim C10. \<^verbatim>\<open>caml_sring_push_requests\<close> asserts that the ring pointer is a multiple
  of the page size of 4096: it fails exactly when the pointer is not, and then with the
  assertion failure. \<^verbatim>\<open>caml_sring_push_responses\<close> and the six other stubs check
  nothing and return for every pointer.
\<close>

theorem only_push_requests_checks_alignment:
  "PAGE_SIZE = 4096 \<and>
   (isl (caml_sring_push_requests p v st) \<longleftrightarrow> unat p mod PAGE_SIZE \<noteq> 0) \<and>
   (unat p mod PAGE_SIZE \<noteq> 0 \<longrightarrow> caml_sring_push_requests p v st = Inl Assertion_failed) \<and>
   (unat p mod PAGE_SIZE = 0 \<longrightarrow> (\<exists>st'. caml_sring_push_requests p v st = Inr (Val_unit, st'))) \<and>
   \<not> isl (caml_sring_push_responses p v st) \<and>
   \<not> isl (caml_sring_set_rsp_event p v st) \<and>
   \<not> isl (caml_sring_set_req_event p v st) \<and>
   \<not> isl (caml_sring_rsp_prod p st) \<and>
   \<not> isl (caml_sring_req_prod p st) \<and>
   \<not> isl (caml_sring_req_event p st) \<and>
   \<not> isl (caml_sring_rsp_event p st)"
proof -
  have "unat p mod PAGE_SIZE \<noteq> 0 \<longrightarrow> caml_sring_push_requests p v st = Inl Assertion_failed"
    by (simp add: caml_sring_push_requests_def)
  moreover have "unat p mod PAGE_SIZE = 0 \<longrightarrow>
      (\<exists>st'. caml_sring_push_requests p v st = Inr (Val_unit, st'))"
    by (simp add: push_requests_Inr)
  ultimately show ?thesis
    by (simp add: PAGE_SIZE_def push_requests_Inl push_responses_Inr set_rsp_event_Inr
        set_req_event_Inr rsp_prod_Inr req_prod_Inr req_event_Inr rsp_event_Inr)
qed

theorem only_push_requests_checks_alignment_witness:
  "unat (4100 :: pointer) mod PAGE_SIZE \<noteq> 0 \<and>
   caml_sring_push_requests 4100 15 ring0 = Inl Assertion_failed \<and>
   \<not> isl (caml_sring_push_responses 4100 15 ring0) \<and>
   unat (4096 :: pointer) mod PAGE_SIZE = 0 \<and>
   \<not> isl (caml_sring_push_requests 4096 15 ring0)"
proof -
  have bad: "unat (4100 :: pointer) mod PAGE_SIZE \<noteq> 0"
    by (simp add: PAGE_SIZE_def)
  have good: "unat (4096 :: pointer) mod PAGE_SIZE = 0"
    by (simp add: PAGE_SIZE_def)
  from bad good only_push_requests_checks_alignment [of 4100 15 ring0]
    only_push_requests_checks_alignment [of 4096 15 ring0]
  show ?thesis
    by simp
qed


subsection \<open>Frame\<close>

text \<open>
  Claim C8. Every publish stub writes one index field and leaves the rest of the
  structure as it was: \<^verbatim>\<open>caml_sring_push_requests\<close> stores only to \<^verbatim>\<open>req_prod\<close>,
  \<^verbatim>\<open>caml_sring_push_responses\<close> only to \<^verbatim>\<open>rsp_prod\<close>, \<^verbatim>\<open>caml_sring_set_rsp_event\<close>
  only to \<^verbatim>\<open>rsp_event\<close>, \<^verbatim>\<open>caml_sring_set_req_event\<close> only to \<^verbatim>\<open>req_event\<close>; every
  getter stores nothing and leaves the structure unchanged. Hence the peer that
  produces requests and consumes responses, calling \<^verbatim>\<open>caml_sring_push_requests\<close> and
  \<^verbatim>\<open>caml_sring_set_rsp_event\<close>, writes the two fields \<^verbatim>\<open>req_prod\<close> and \<^verbatim>\<open>rsp_event\<close>,
  and the peer calling the other two stubs writes \<^verbatim>\<open>rsp_prod\<close> and \<^verbatim>\<open>req_event\<close>.
\<close>

theorem stubs_frame:
  "(caml_sring_push_requests p v st = Inr (r, st') \<longrightarrow>
      shared st' = (shared st)\<lparr>req_prod := Int_val v\<rparr> \<and>
      stored_fields (emitted st st') = [ReqProd]) \<and>
   (\<exists>s2. caml_sring_push_responses p v st = Inr (Val_unit, s2) \<and>
      shared s2 = (shared st)\<lparr>rsp_prod := Int_val v\<rparr> \<and>
      stored_fields (emitted st s2) = [RspProd]) \<and>
   (\<exists>s3. caml_sring_set_rsp_event p v st = Inr (Val_unit, s3) \<and>
      shared s3 = (shared st)\<lparr>rsp_event := Int_val v\<rparr> \<and>
      stored_fields (emitted st s3) = [RspEvent]) \<and>
   (\<exists>s4. caml_sring_set_req_event p v st = Inr (Val_unit, s4) \<and>
      shared s4 = (shared st)\<lparr>req_event := Int_val v\<rparr> \<and>
      stored_fields (emitted st s4) = [ReqEvent]) \<and>
   (\<exists>g1. caml_sring_rsp_prod p st = Inr (Val_int (rsp_prod (shared st)), g1) \<and>
      shared g1 = shared st \<and> stored_fields (emitted st g1) = []) \<and>
   (\<exists>g2. caml_sring_req_prod p st = Inr (Val_int (req_prod (shared st)), g2) \<and>
      shared g2 = shared st \<and> stored_fields (emitted st g2) = []) \<and>
   (\<exists>g3. caml_sring_req_event p st = Inr (Val_int (req_event (shared st)), g3) \<and>
      shared g3 = shared st \<and> stored_fields (emitted st g3) = []) \<and>
   (\<exists>g4. caml_sring_rsp_event p st = Inr (Val_int (rsp_event (shared st)), g4) \<and>
      shared g4 = shared st \<and> stored_fields (emitted st g4) = []) \<and>
   (caml_sring_push_requests p v st = Inr (r, st') \<longrightarrow>
      (\<exists>t1. caml_sring_set_rsp_event p w st' = Inr (Val_unit, t1) \<and>
         shared t1 = (shared st)\<lparr>req_prod := Int_val v, rsp_event := Int_val w\<rparr> \<and>
         stored_fields (emitted st t1) = [ReqProd, RspEvent])) \<and>
   (\<exists>s2 t2. caml_sring_push_responses p v st = Inr (Val_unit, s2) \<and>
      caml_sring_set_req_event p w s2 = Inr (Val_unit, t2) \<and>
      shared t2 = (shared st)\<lparr>rsp_prod := Int_val v, req_event := Int_val w\<rparr> \<and>
      stored_fields (emitted st t2) = [RspProd, ReqEvent])"
proof -
  have setters:
    "caml_sring_push_requests p v st = Inr (r, st') \<longrightarrow>
       shared st' = (shared st)\<lparr>req_prod := Int_val v\<rparr> \<and>
       stored_fields (emitted st st') = [ReqProd]"
    "\<exists>s2. caml_sring_push_responses p v st = Inr (Val_unit, s2) \<and>
       shared s2 = (shared st)\<lparr>rsp_prod := Int_val v\<rparr> \<and>
       stored_fields (emitted st s2) = [RspProd]"
    "\<exists>s3. caml_sring_set_rsp_event p v st = Inr (Val_unit, s3) \<and>
       shared s3 = (shared st)\<lparr>rsp_event := Int_val v\<rparr> \<and>
       stored_fields (emitted st s3) = [RspEvent]"
    "\<exists>s4. caml_sring_set_req_event p v st = Inr (Val_unit, s4) \<and>
       shared s4 = (shared st)\<lparr>req_event := Int_val v\<rparr> \<and>
       stored_fields (emitted st s4) = [ReqEvent]"
    by (simp_all add: push_requests_Inr push_responses_Inr set_rsp_event_Inr
        set_req_event_Inr emitted_append)
  have getters:
    "\<exists>g1. caml_sring_rsp_prod p st = Inr (Val_int (rsp_prod (shared st)), g1) \<and>
       shared g1 = shared st \<and> stored_fields (emitted st g1) = []"
    "\<exists>g2. caml_sring_req_prod p st = Inr (Val_int (req_prod (shared st)), g2) \<and>
       shared g2 = shared st \<and> stored_fields (emitted st g2) = []"
    "\<exists>g3. caml_sring_req_event p st = Inr (Val_int (req_event (shared st)), g3) \<and>
       shared g3 = shared st \<and> stored_fields (emitted st g3) = []"
    "\<exists>g4. caml_sring_rsp_event p st = Inr (Val_int (rsp_event (shared st)), g4) \<and>
       shared g4 = shared st \<and> stored_fields (emitted st g4) = []"
    by (simp_all add: rsp_prod_Inr req_prod_Inr req_event_Inr rsp_event_Inr emitted_append)
  have peers:
    "caml_sring_push_requests p v st = Inr (r, st') \<longrightarrow>
       (\<exists>t1. caml_sring_set_rsp_event p w st' = Inr (Val_unit, t1) \<and>
          shared t1 = (shared st)\<lparr>req_prod := Int_val v, rsp_event := Int_val w\<rparr> \<and>
          stored_fields (emitted st t1) = [ReqProd, RspEvent])"
    "\<exists>s2 t2. caml_sring_push_responses p v st = Inr (Val_unit, s2) \<and>
       caml_sring_set_req_event p w s2 = Inr (Val_unit, t2) \<and>
       shared t2 = (shared st)\<lparr>rsp_prod := Int_val v, req_event := Int_val w\<rparr> \<and>
       stored_fields (emitted st t2) = [RspProd, ReqEvent]"
    by (simp_all add: push_requests_Inr push_responses_Inr set_rsp_event_Inr
        set_req_event_Inr emitted_def)
  from setters getters peers show ?thesis
    by (intro conjI)
qed

theorem stubs_frame_witness:
  "caml_sring_push_requests 4096 15 ring0 =
     Inr (Val_unit, ring0\<lparr>shared := (shared ring0)\<lparr>req_prod := 7\<rparr>,
                          trace := [Fence, Store ReqProd 7]\<rparr>) \<and>
   shared (ring0\<lparr>shared := (shared ring0)\<lparr>req_prod := 7\<rparr>,
                trace := [Fence, Store ReqProd 7]\<rparr>) =
     \<lparr>req_prod = 7, req_event = 1, rsp_prod = 5, rsp_event = 2, pad = replicate 64 0\<rparr> \<and>
   stored_fields (emitted ring0 (ring0\<lparr>shared := (shared ring0)\<lparr>req_prod := 7\<rparr>,
                                      trace := [Fence, Store ReqProd 7]\<rparr>)) = [ReqProd]"
proof -
  have call: "caml_sring_push_requests 4096 15 ring0 =
     Inr (Val_unit, ring0\<lparr>shared := (shared ring0)\<lparr>req_prod := 7\<rparr>,
                          trace := [Fence, Store ReqProd 7]\<rparr>)"
    by (simp add: push_requests_Inr PAGE_SIZE_def Int_val_15 ring0_def)
  have rec: "(shared ring0)\<lparr>req_prod := 7\<rparr> =
     \<lparr>req_prod = 7, req_event = 1, rsp_prod = 5, rsp_event = 2, pad = replicate 64 0\<rparr>"
    by (simp add: ring0_def)
  from call stubs_frame [where p = 4096 and v = 15 and st = ring0 and r = Val_unit and
      st' = "ring0\<lparr>shared := (shared ring0)\<lparr>req_prod := 7\<rparr>,
                  trace := [Fence, Store ReqProd 7]\<rparr>"]
  show ?thesis
    by (simp add: Int_val_15 rec)
qed

subsection \<open>Layout\<close>








subsection \<open>Index arithmetic\<close>

text \<open>
  Claim C7. Let \<open>P\<close> entries have been produced and \<open>C\<close> consumed since the indices
  stood at \<open>seed\<close>, with no more than the capacity outstanding. The indices are then
  \<open>seed + P\<close> and \<open>seed + C\<close> modulo \<open>2^32\<close>, and \<^verbatim>\<open>available\<close>, their wrapping
  difference, is the number \<open>P - C\<close> of entries produced and not yet consumed, which is
  at most the capacity; this holds for every seed, also when the indices wrap around.
\<close>

theorem available_counts_outstanding:
  assumes "C \<le> P" and "P - C \<le> unat (capacity :: RING_IDX)"
  shows "available (seed + of_nat P) (seed + of_nat C) = (seed + of_nat P) - (seed + of_nat C) \<and>
    unat (available (seed + of_nat P) (seed + of_nat C)) = P - C \<and>
    unat (available (seed + of_nat P) (seed + of_nat C)) \<le> unat capacity"
proof -
  have "unat capacity < 2 ^ 32"
    using unsigned_less [of capacity, where ?'a = nat] by simp
  with assms(2) have small: "P - C < 2 ^ 32"
    by simp
  have "available (seed + of_nat P) (seed + of_nat C) = of_nat (P - C)"
    using assms(1) by (simp add: available_def)
  then have "unat (available (seed + of_nat P) (seed + of_nat C)) = P - C"
    using small by (simp add: unat_of_nat)
  with assms(2) show ?thesis
    by (simp add: available_def)
qed

theorem available_counts_outstanding_witness:
  "(2 :: nat) \<le> 9 \<and> (9 :: nat) - 2 \<le> unat (32 :: RING_IDX) \<and>
   (4294967290 + of_nat 9 :: RING_IDX) = 3 \<and>
   (4294967290 + of_nat 2 :: RING_IDX) = 4294967292 \<and>
   unat (available (4294967290 + of_nat 9) (4294967290 + of_nat 2)) = 9 - 2"
proof -
  have le: "(2 :: nat) \<le> 9"
    by simp
  have cap: "(9 :: nat) - 2 \<le> unat (32 :: RING_IDX)"
    by simp
  from available_counts_outstanding [OF le cap, of 4294967290] show ?thesis
    by simp
qed


end
